theory Spec2Isabelle
  imports Complex_Main "HOL-Library.Word"
begin

section \<open>Library values used by the handlers\<close>

text \<open>
  The repository holds two variants of one demo service: \<^verbatim>\<open>src/app/main.go\<close> (tracing,
  structured logs, a Prometheus histogram with exemplars) and a simpler one
  (\<^verbatim>\<open>src/unnamed/part_000\<close>) that only sleeps, prints and answers. Both define
  \<^verbatim>\<open>healthzHandler\<close> and \<^verbatim>\<open>workHandler\<close>. The handlers are effectful, so they are
  embedded as state transformers on a record of everything they touch, and every effect is
  also appended to a trace of events, in program order.
\<close>

subsection \<open>time.Duration\<close>

text \<open>\<^verbatim>\<open>time.Duration\<close> is an int64 count of nanoseconds. The handlers only build
  durations below one second, so the 64-bit bound is never reached and \<open>int\<close> is exact.\<close>

type_synonym Duration = int

definition Millisecond :: Duration where
  "Millisecond = 1000000"

text \<open>\<^verbatim>\<open>func (d Duration) Milliseconds() int64 { return int64(d) / 1e6 }\<close>; Go's integer
  division truncates toward zero.\<close>

definition Milliseconds :: "Duration \<Rightarrow> int" where
  "Milliseconds d = (if d < 0 then - ((- d) div 1000000) else d div 1000000)"

text \<open>\<^verbatim>\<open>Duration.Seconds\<close> returns a float64; the model keeps the exact quotient.\<close>

definition Seconds :: "Duration \<Rightarrow> real" where
  "Seconds d = real_of_int d / 1000000000"

subsection \<open>strconv.Itoa and hex.EncodeToString\<close>

definition dectable :: string where
  "dectable = ''0123456789''"

fun digits10 :: "nat \<Rightarrow> string" where
  "digits10 n = (if n < 10 then [dectable ! n] else digits10 (n div 10) @ [dectable ! (n mod 10)])"

declare digits10.simps [simp del]

definition Itoa :: "int \<Rightarrow> string" where
  "Itoa i = (if i < 0 then CHR ''-'' # digits10 (nat (- i)) else digits10 (nat i))"

definition hextable :: string where
  "hextable = ''0123456789abcdef''"

definition hex_byte :: "8 word \<Rightarrow> string" where
  "hex_byte b = [hextable ! (unat b div 16), hextable ! (unat b mod 16)]"

definition EncodeToString :: "8 word list \<Rightarrow> string" where
  "EncodeToString bs = concat (map hex_byte bs)"

text \<open>\<^verbatim>\<open>trace.TraceID\<close> is \<^verbatim>\<open>[16]byte\<close>, \<^verbatim>\<open>trace.SpanID\<close> is \<^verbatim>\<open>[8]byte\<close>; both
  \<^verbatim>\<open>String()\<close> methods are \<^verbatim>\<open>hex.EncodeToString(t[:])\<close>.\<close>

definition TraceID_String :: "8 word list \<Rightarrow> string" where
  "TraceID_String t = EncodeToString t"

definition SpanID_String :: "8 word list \<Rightarrow> string" where
  "SpanID_String s = EncodeToString s"

subsection \<open>float32 draws\<close>

text \<open>
  A non-negative float32 is \<open>mant / 2 ^ expo\<close> with a significand \<open>mant < 2 ^ 24\<close>.
  \<^verbatim>\<open>rand.Float32()\<close> returns such a value in \<open>[0, 1)\<close>.
\<close>

record float32 =
  mant :: nat
  expo :: nat

definition float32_ok :: "float32 \<Rightarrow> bool" where
  "float32_ok f = (mant f < 2 ^ 24 \<and> mant f < 2 ^ expo f)"

definition float32_val :: "float32 \<Rightarrow> real" where
  "float32_val f = real (mant f) / 2 ^ expo f"

text \<open>
  The test \<^verbatim>\<open>rand.Float32() < 0.2\<close>: the untyped constant is converted to float32, the
  nearest one being \<open>13421773 / 2 ^ 26\<close> (bit pattern 0x3E4CCCCD), and the comparison is
  exact. Cross-multiplied so that it computes on naturals.
\<close>

definition lt_0_2 :: "float32 \<Rightarrow> bool" where
  "lt_0_2 f = (mant f * 2 ^ 26 < 13421773 * 2 ^ expo f)"

subsection \<open>rand.Intn\<close>

text \<open>
  For \<open>0 < n < 2 ^ 31\<close>, \<^verbatim>\<open>rand.Intn(n)\<close> is \<^verbatim>\<open>Int31n(n)\<close>: it draws 31-bit values
  \<^verbatim>\<open>v := r.Int31()\<close> until one is at most
  \<^verbatim>\<open>max := (1 << 31) - 1 - (1 << 31) % uint32(n)\<close> and returns \<^verbatim>\<open>v % n\<close> (when \<open>n\<close> is a
  power of two it returns \<^verbatim>\<open>v & (n - 1)\<close>, the same value, for the first \<open>v\<close>). The model
  takes the draw \<open>v\<close> that is used from outside and computes the result from it and from
  the bound the handler passes. \<^verbatim>\<open>Intn\<close> panics for \<open>n \<le> 0\<close>; the handlers pass the
  literals 400, 200 and 500.
\<close>

definition Int31n_max :: "int \<Rightarrow> nat" where
  "Int31n_max n = 2 ^ 31 - 1 - 2 ^ 31 mod nat n"

definition Intn :: "int \<Rightarrow> nat \<Rightarrow> int" where
  "Intn n v = int v mod n"

text \<open>The accepted draws on which \<^verbatim>\<open>rand.Intn(n)\<close> returns \<open>r\<close>.\<close>

definition draws_giving :: "int \<Rightarrow> int \<Rightarrow> nat set" where
  "draws_giving n r = {v \<in> {..Int31n_max n}. Intn n v = r}"

subsection \<open>net/http status codes\<close>

definition StatusOK :: int where
  "StatusOK = 200"

definition StatusInternalServerError :: int where
  "StatusInternalServerError = 500"

section \<open>The state the handlers act on\<close>

datatype level = Info | Warn | Error

datatype val = S string | I int | F real | B bool

type_synonym attrs = "(string \<times> val) list"

type_synonym labels = "(string \<times> string) list"

text \<open>One histogram sample: the observed value and the exemplar labels, if any.\<close>

record sample =
  observed :: real
  exemplar :: "labels option"

datatype event =
    SpanStart nat string
  | SpanEnd nat
  | Slept Duration
  | Log level string attrs
  | Printf string Duration
  | RespHeader int
  | RespBody string
  | Observed "string \<times> string" sample

text \<open>
  \<open>clock\<close> is the monotonic clock in nanoseconds, \<open>next_span\<close> the tracer's supply of span
  handles, \<open>wrote_header\<close> and \<open>body\<close> the \<^verbatim>\<open>http.ResponseWriter\<close> of this request,
  \<open>hist\<close> the process-wide \<^verbatim>\<open>reqDuration\<close> histogram vector, keyed by its two label
  values (method, status).
\<close>

record world =
  clock :: int
  next_span :: nat
  wrote_header :: "int option"
  body :: string
  hist :: "string \<times> string \<Rightarrow> sample list"
  events :: "event list"

text \<open>
  What one request receives from outside: the request method, the identifiers of the span
  the tracing middleware put into the request context, the 31-bit draws used by the first
  and the second call of \<^verbatim>\<open>rand.Intn\<close> and the result of \<^verbatim>\<open>rand.Float32\<close>, whether the histogram's observer passes the type assertion to
  \<^verbatim>\<open>prometheus.ExemplarObserver\<close>, and by how much each \<^verbatim>\<open>time.Sleep\<close> overshoots.
\<close>

record env =
  Method :: string
  trace_id :: "8 word list"
  span_id :: "8 word list"
  raw1 :: nat
  raw2 :: nat
  fdraw :: float32
  exemplar_ok :: bool
  over1 :: int
  over2 :: int

text \<open>The state at the entry of a handler: a fresh response writer and an empty trace.\<close>

definition fresh_request :: "int \<Rightarrow> nat \<Rightarrow> (string \<times> string \<Rightarrow> sample list) \<Rightarrow> world" where
  "fresh_request t n h =
     \<lparr>clock = t, next_span = n, wrote_header = None, body = [], hist = h, events = []\<rparr>"

subsection \<open>Operations\<close>

definition emit :: "event \<Rightarrow> world \<Rightarrow> world" where
  "emit ev w = w\<lparr>events := events w @ [ev]\<rparr>"

text \<open>\<^verbatim>\<open>otel.Tracer("app").Start(ctx, name)\<close> returns a new span; \<^verbatim>\<open>span.End()\<close>.\<close>

definition Tracer_Start :: "string \<Rightarrow> world \<Rightarrow> nat \<times> world" where
  "Tracer_Start name w =
     (next_span w, emit (SpanStart (next_span w) name) (w\<lparr>next_span := Suc (next_span w)\<rparr>))"

definition Span_End :: "nat \<Rightarrow> world \<Rightarrow> world" where
  "Span_End h w = emit (SpanEnd h) w"

text \<open>\<^verbatim>\<open>time.Sleep(d)\<close> pauses for at least \<open>d\<close>; a negative or zero \<open>d\<close> returns at once.
  Only sleeping advances the model's clock.\<close>

definition Sleep :: "Duration \<Rightarrow> int \<Rightarrow> world \<Rightarrow> world" where
  "Sleep d over w = emit (Slept d) (w\<lparr>clock := clock w + max d 0 + max over 0\<rparr>)"

text \<open>A call on the logger made by \<^verbatim>\<open>logger.With(bound...)\<close>: one record with the bound
  attributes followed by the call's own.\<close>

definition slog :: "level \<Rightarrow> attrs \<Rightarrow> string \<Rightarrow> attrs \<Rightarrow> world \<Rightarrow> world" where
  "slog lv bound msg args w = emit (Log lv msg (bound @ args)) w"

text \<open>\<^verbatim>\<open>fmt.Printf(format, latency)\<close> writes one line to standard output; the event keeps
  the format string and the argument, the formatted text is not computed.\<close>

definition fmt_Printf :: "string \<Rightarrow> Duration \<Rightarrow> world \<Rightarrow> world" where
  "fmt_Printf format d w = emit (Printf format d) w"

text \<open>\<^verbatim>\<open>ResponseWriter.WriteHeader\<close> sends the status line once; a later call is ignored.
  \<^verbatim>\<open>ResponseWriter.Write\<close> first sends status 200 if no header was written.\<close>

definition WriteHeader :: "int \<Rightarrow> world \<Rightarrow> world" where
  "WriteHeader code w =
     (case wrote_header w of
        None \<Rightarrow> emit (RespHeader code) (w\<lparr>wrote_header := Some code\<rparr>)
      | Some _ \<Rightarrow> w)"

definition Write :: "string \<Rightarrow> world \<Rightarrow> world" where
  "Write bs w =
     (let w1 = (case wrote_header w of None \<Rightarrow> WriteHeader StatusOK w | Some _ \<Rightarrow> w)
      in emit (RespBody bs) (w1\<lparr>body := body w1 @ bs\<rparr>))"

text \<open>\<^verbatim>\<open>http.Error(w, error, code)\<close> sets the plain-text headers (not modelled), calls
  \<^verbatim>\<open>w.WriteHeader(code)\<close> and then \<^verbatim>\<open>fmt.Fprintln(w, error)\<close>.\<close>

definition http_Error :: "string \<Rightarrow> int \<Rightarrow> world \<Rightarrow> world" where
  "http_Error msg code w = Write (msg @ ''\<newline>'') (WriteHeader code w)"

text \<open>\<^verbatim>\<open>obs.Observe(v)\<close> and \<^verbatim>\<open>exemplarObs.ObserveWithExemplar(v, labels)\<close> on the observer
  \<^verbatim>\<open>reqDuration.WithLabelValues(method, status)\<close>. The vector is declared with these two
  label names, so \<^verbatim>\<open>WithLabelValues\<close> finds or creates the observer. The library rejects
  exemplar labels of more than 128 runes; the label \<open>traceID\<close> with 32 hex digits is far
  below that.\<close>

definition record_sample :: "string \<times> string \<Rightarrow> sample \<Rightarrow> world \<Rightarrow> world" where
  "record_sample key s w = emit (Observed key s) (w\<lparr>hist := (hist w)(key := hist w key @ [s])\<rparr>)"

definition Observe :: "string \<times> string \<Rightarrow> real \<Rightarrow> world \<Rightarrow> world" where
  "Observe key v w = record_sample key \<lparr>observed = v, exemplar = None\<rparr> w"

definition ObserveWithExemplar :: "string \<times> string \<Rightarrow> real \<Rightarrow> labels \<Rightarrow> world \<Rightarrow> world" where
  "ObserveWithExemplar key v ls w = record_sample key \<lparr>observed = v, exemplar = Some ls\<rparr> w"

section \<open>The handlers\<close>

text \<open>\<^verbatim>\<open>healthzHandler\<close>, the same in both variants.\<close>

definition healthzHandler :: "world \<Rightarrow> world" where
  "healthzHandler w = Write ''OK'' (WriteHeader StatusOK w)"

text \<open>\<^verbatim>\<open>workHandler\<close> of \<^verbatim>\<open>src/app/main.go\<close>.\<close>

definition workHandler :: "env \<Rightarrow> world \<Rightarrow> world" where
  "workHandler e w0 =
     (let start = clock w0;
          traceID = TraceID_String (trace_id e);
          bound = [(''trace_id'', S traceID), (''span_id'', S (SpanID_String (span_id e)))];
          (childSpan, w1) = Tracer_Start ''simulate_work'' w0;
          latency = Intn 400 (raw1 e) * Millisecond;
          w2 = Sleep latency (over1 e) w1;
          w3 = Span_End childSpan w2;
          (cacheSpan, w4) = Tracer_Start ''db_cache_lookup'' w3;
          w5 = Sleep (Intn 200 (raw2 e) * Millisecond) (over2 e) w4;
          w6 = Span_End cacheSpan w5;
          (status, w7) =
            (if lt_0_2 (fdraw e) then
               (StatusInternalServerError,
                http_Error ''Internal Server Error'' StatusInternalServerError
                  (slog Error bound ''request failed''
                     [(''latency_ms'', I (Milliseconds latency)),
                      (''status'', I StatusInternalServerError)] w6))
             else
               (StatusOK,
                Write ''Work completed\<newline>''
                  (slog Info bound ''request succeeded''
                     [(''latency_ms'', I (Milliseconds latency)),
                      (''status'', I StatusOK)] w6)));
          duration = Seconds (clock w7 - start);
          obs = (Method e, Itoa status)
      in if exemplar_ok e \<and> traceID \<noteq> [] then
           ObserveWithExemplar obs duration [(''traceID'', traceID)]
             (slog Info bound ''Attaching exemplar''
                [(''traceID'', S traceID), (''duration'', F duration)] w7)
         else
           Observe obs duration
             (slog Warn bound ''Exemplar not supported or traceID empty''
                [(''traceID'', S traceID), (''ok'', B (exemplar_ok e))] w7))"

text \<open>\<^verbatim>\<open>workHandler\<close> of the simpler variant (\<^verbatim>\<open>src/unnamed/part_000\<close>).\<close>

definition workHandler_basic :: "env \<Rightarrow> world \<Rightarrow> world" where
  "workHandler_basic e w0 =
     (let latency = Intn 500 (raw1 e) * Millisecond;
          w1 = Sleep latency (over1 e) w0
      in if lt_0_2 (fdraw e) then
           http_Error ''Internal Server Error'' StatusInternalServerError
             (fmt_Printf ''ERROR: Request failed after %v\<newline>'' latency w1)
         else
           Write ''Work completed\<newline>''
             (fmt_Printf ''SUCCESS: Request completed in %v\<newline>'' latency w1))"

section \<open>Reading a trace\<close>

text \<open>Projections of a trace onto one kind of event, in program order.\<close>

fun logs :: "event list \<Rightarrow> (level \<times> string \<times> attrs) list" where
  "logs [] = []"
| "logs (Log lv msg kvs # es) = (lv, msg, kvs) # logs es"
| "logs (_ # es) = logs es"

fun printfs :: "event list \<Rightarrow> (string \<times> Duration) list" where
  "printfs [] = []"
| "printfs (Printf format d # es) = (format, d) # printfs es"
| "printfs (_ # es) = printfs es"

fun sleeps :: "event list \<Rightarrow> Duration list" where
  "sleeps [] = []"
| "sleeps (Slept d # es) = d # sleeps es"
| "sleeps (_ # es) = sleeps es"

fun span_starts :: "event list \<Rightarrow> (nat \<times> string) list" where
  "span_starts [] = []"
| "span_starts (SpanStart h name # es) = (h, name) # span_starts es"
| "span_starts (_ # es) = span_starts es"

fun span_ends :: "event list \<Rightarrow> nat list" where
  "span_ends [] = []"
| "span_ends (SpanEnd h # es) = h # span_ends es"
| "span_ends (_ # es) = span_ends es"

fun resp_headers :: "event list \<Rightarrow> int list" where
  "resp_headers [] = []"
| "resp_headers (RespHeader code # es) = code # resp_headers es"
| "resp_headers (_ # es) = resp_headers es"

fun samples :: "event list \<Rightarrow> ((string \<times> string) \<times> sample) list" where
  "samples [] = []"
| "samples (Observed key s # es) = (key, s) # samples es"
| "samples (_ # es) = samples es"

text \<open>The level and the field names of a log entry, and one field of it.\<close>

definition shape :: "level \<times> string \<times> attrs \<Rightarrow> level \<times> string list" where
  "shape l = (fst l, map fst (snd (snd l)))"

definition attr :: "string \<Rightarrow> level \<times> string \<times> attrs \<Rightarrow> val option" where
  "attr k l = map_of (snd (snd l)) k"


text \<open>The entry that reports the outcome is the one carrying the latency.\<close>

fun is_outcome_log :: "event \<Rightarrow> bool" where
  "is_outcome_log (Log lv msg kvs) = (map_of kvs ''latency_ms'' \<noteq> None)"
| "is_outcome_log _ = False"




text \<open>\<open>all_before P Q tr\<close>: no \<open>P\<close>-event of \<open>tr\<close> comes after a \<open>Q\<close>-event, that is,
  everything of kind \<open>P\<close> is finished before the first event of kind \<open>Q\<close>.\<close>

fun all_before :: "(event \<Rightarrow> bool) \<Rightarrow> (event \<Rightarrow> bool) \<Rightarrow> event list \<Rightarrow> bool" where
  "all_before P Q [] = True"
| "all_before P Q (x # xs) = ((if Q x then \<not> list_ex P xs else True) \<and> all_before P Q xs)"

text \<open>\<open>spans_lifo stack tr\<close>: run over the trace with the stack of spans that are started and
  not ended; an end must name the top of the stack, and at the end nothing is left open.\<close>

fun spans_lifo :: "nat list \<Rightarrow> event list \<Rightarrow> bool" where
  "spans_lifo stack [] = (stack = [])"
| "spans_lifo stack (SpanStart h name # es) = spans_lifo (h # stack) es"
| "spans_lifo stack (SpanEnd h # es) =
     (case stack of [] \<Rightarrow> False | h0 # rest \<Rightarrow> h = h0 \<and> spans_lifo rest es)"
| "spans_lifo stack (_ # es) = spans_lifo stack es"

text \<open>What the model's clock shows between \<^verbatim>\<open>time.Now()\<close> and \<^verbatim>\<open>time.Since(start)\<close> in \<open>workHandler\<close>.\<close>

definition elapsed :: "env \<Rightarrow> Duration" where
  "elapsed e = max (Intn 400 (raw1 e) * Millisecond) 0 + (max (over1 e) 0 +
     (max (Intn 200 (raw2 e) * Millisecond) 0 + max (over2 e) 0))"

section \<open>Example requests\<close>

text \<open>A request that succeeds (the float32 draw is 1/2) and one that fails (the draw is 1/8),
  both with 50 and 100 as the draws behind the two delays; \<open>no_exemplar\<close> is the first one on
  an observer without exemplar support.\<close>

definition ok_request :: env where
  "ok_request =
     \<lparr>Method = ''GET'',
      trace_id = [0, 1, 2, 3, 4, 5, 6, 7, 8, 9, 10, 11, 12, 13, 14, 15],
      span_id = [16, 17, 18, 19, 20, 21, 22, 23],
      raw1 = 50, raw2 = 100, fdraw = \<lparr>mant = 1, expo = 1\<rparr>,
      exemplar_ok = True, over1 = 0, over2 = 0\<rparr>"

definition failing_request :: env where
  "failing_request = ok_request\<lparr>fdraw := \<lparr>mant = 1, expo = 3\<rparr>\<rparr>"

definition no_exemplar :: env where
  "no_exemplar = ok_request\<lparr>exemplar_ok := False\<rparr>"

definition start_world :: world where
  "start_world = fresh_request 0 0 (\<lambda>key. [])"

section \<open>What the operations and handlers compute\<close>

lemmas id_defs = TraceID_String_def SpanID_String_def EncodeToString_def hex_byte_def hextable_def

lemmas ex_defs = ok_request_def failing_request_def no_exemplar_def start_world_def Intn_def

lemmas op_defs = emit_def Tracer_Start_def Span_End_def Sleep_def slog_def fmt_Printf_def
  WriteHeader_def Write_def http_Error_def record_sample_def Observe_def ObserveWithExemplar_def
  fresh_request_def StatusOK_def StatusInternalServerError_def

lemma Itoa_200: "Itoa 200 = ''200''"
  by (simp add: Itoa_def digits10.simps dectable_def)

lemma Itoa_500: "Itoa 500 = ''500''"
  by (simp add: Itoa_def digits10.simps dectable_def)

lemma Milliseconds_mult: "Milliseconds (n * Millisecond) = n"
proof (cases "n < 0")
  case True
  have "- (n * 1000000) = (- n) * 1000000" by simp
  then have "(- (n * 1000000)) div 1000000 = - n"
    by (simp only: nonzero_mult_div_cancel_right)
  with True show ?thesis by (simp add: Milliseconds_def Millisecond_def)
next
  case False
  then show ?thesis by (simp add: Milliseconds_def Millisecond_def)
qed

lemma EncodeToString_nonempty: "bs \<noteq> [] \<Longrightarrow> EncodeToString bs \<noteq> []"
  by (cases bs) (simp_all add: EncodeToString_def hex_byte_def)

text \<open>The whole trace of one request in the variant with telemetry.\<close>

lemma events_workHandler:
  "events (workHandler e (fresh_request t n h)) =
    (let traceID = TraceID_String (trace_id e);
         bound = [(''trace_id'', S traceID), (''span_id'', S (SpanID_String (span_id e)))];
         failed = lt_0_2 (fdraw e);
         status = (if failed then 500 else 200);
         attach = (exemplar_ok e \<and> traceID \<noteq> [])
     in [SpanStart n ''simulate_work'', Slept (Intn 400 (raw1 e) * Millisecond), SpanEnd n,
         SpanStart (Suc n) ''db_cache_lookup'', Slept (Intn 200 (raw2 e) * Millisecond), SpanEnd (Suc n),
         Log (if failed then Error else Info)
           (if failed then ''request failed'' else ''request succeeded'')
           (bound @ [(''latency_ms'', I (Intn 400 (raw1 e))), (''status'', I status)]),
         RespHeader status,
         RespBody (if failed then ''Internal Server Error\<newline>'' else ''Work completed\<newline>''),
         if attach then
           Log Info ''Attaching exemplar''
             (bound @ [(''traceID'', S traceID), (''duration'', F (Seconds (elapsed e)))])
         else
           Log Warn ''Exemplar not supported or traceID empty''
             (bound @ [(''traceID'', S traceID), (''ok'', B (exemplar_ok e))]),
         Observed (Method e, if failed then ''500'' else ''200'')
           \<lparr>observed = Seconds (elapsed e),
            exemplar = (if attach then Some [(''traceID'', traceID)] else None)\<rparr>])"
  by (simp add: workHandler_def op_defs Let_def Milliseconds_mult Itoa_200 Itoa_500 elapsed_def)

lemma hist_workHandler:
  "hist (workHandler e (fresh_request t n h)) =
    (let traceID = TraceID_String (trace_id e);
         key = (Method e, if lt_0_2 (fdraw e) then ''500'' else ''200'')
     in h(key := h key @
           [\<lparr>observed = Seconds (elapsed e),
             exemplar = (if exemplar_ok e \<and> traceID \<noteq> []
                         then Some [(''traceID'', traceID)] else None)\<rparr>]))"
  by (simp add: workHandler_def op_defs Let_def Itoa_200 Itoa_500 elapsed_def)

lemma response_workHandler:
  "wrote_header (workHandler e (fresh_request t n h)) =
     Some (if lt_0_2 (fdraw e) then 500 else 200)"
  "body (workHandler e (fresh_request t n h)) =
     (if lt_0_2 (fdraw e) then ''Internal Server Error\<newline>'' else ''Work completed\<newline>'')"
  by (simp_all add: workHandler_def op_defs Let_def)

text \<open>The same for the simpler variant.\<close>

lemma events_workHandler_basic:
  "events (workHandler_basic e (fresh_request t n h)) =
     [Slept (Intn 500 (raw1 e) * Millisecond),
      Printf (if lt_0_2 (fdraw e) then ''ERROR: Request failed after %v\<newline>''
              else ''SUCCESS: Request completed in %v\<newline>'') (Intn 500 (raw1 e) * Millisecond),
      RespHeader (if lt_0_2 (fdraw e) then 500 else 200),
      RespBody (if lt_0_2 (fdraw e) then ''Internal Server Error\<newline>''
                else ''Work completed\<newline>'')]"
  by (simp add: workHandler_basic_def op_defs Let_def)

lemma response_workHandler_basic:
  "wrote_header (workHandler_basic e (fresh_request t n h)) =
     Some (if lt_0_2 (fdraw e) then 500 else 200)"
  "body (workHandler_basic e (fresh_request t n h)) =
     (if lt_0_2 (fdraw e) then ''Internal Server Error\<newline>'' else ''Work completed\<newline>'')"
  "clock (workHandler_basic e (fresh_request t n h)) =
     t + max (Intn 500 (raw1 e) * Millisecond) 0 + max (over1 e) 0"
  by (simp_all add: workHandler_basic_def op_defs Let_def)

lemma response_healthzHandler:
  "events (healthzHandler (fresh_request t n h)) = [RespHeader 200, RespBody ''OK'']"
  "wrote_header (healthzHandler (fresh_request t n h)) = Some 200"
  "body (healthzHandler (fresh_request t n h)) = ''OK''"
  by (simp_all add: healthzHandler_def op_defs Let_def)

text \<open>The delays requested from the two sleeps are within the time that elapses.\<close>

lemma elapsed_ge: "(Intn 400 (raw1 e) + Intn 200 (raw2 e)) * Millisecond \<le> elapsed e"
  by (simp add: elapsed_def Millisecond_def algebra_simps max_def)

subsection \<open>The values of rand.Intn\<close>

text \<open>Among \<open>k * n\<close> consecutive naturals from 0, each residue modulo \<open>n\<close> occurs \<open>k\<close>
  times; the accepted draws of \<^verbatim>\<open>Int31n(n)\<close> are such a range.\<close>

lemma card_residue:
  fixes n k r :: nat
  assumes "r < n"
  shows "card {v. v < k * n \<and> v mod n = r} = k"
proof -
  have "{v. v < k * n \<and> v mod n = r} = (\<lambda>q. q * n + r) ` {..<k}"
  proof (intro set_eqI iffI)
    fix v assume "v \<in> {v. v < k * n \<and> v mod n = r}"
    then have v: "v < k * n" "v mod n = r" by auto
    then have "v div n < k" using assms
      by (simp add: less_mult_imp_div_less)
    moreover have "v = (v div n) * n + r" using v(2) by (metis div_mult_mod_eq)
    ultimately show "v \<in> (\<lambda>q. q * n + r) ` {..<k}" by blast
  next
    fix v assume "v \<in> (\<lambda>q. q * n + r) ` {..<k}"
    then obtain q where q: "q < k" "v = q * n + r" by auto
    have "q * n + r < Suc q * n" using assms by simp
    also have "\<dots> \<le> k * n" using q(1) by (intro mult_le_mono1) simp
    finally have "v < k * n" using q(2) by simp
    moreover have "v mod n = r" using q(2) assms by simp
    ultimately show "v \<in> {v. v < k * n \<and> v mod n = r}" by simp
  qed
  moreover have "inj_on (\<lambda>q. q * n + r) {..<k}"
    using assms by (auto simp: inj_on_def)
  ultimately show ?thesis by (simp add: card_image)
qed

lemma Intn_range: "0 < n \<Longrightarrow> 0 \<le> Intn n v \<and> Intn n v < n"
  by (simp add: Intn_def)

lemma card_draws_giving:
  fixes n k :: nat
  assumes n: "0 < n" and mx: "Suc (Int31n_max (int n)) = k * n" and r: "0 \<le> r" "r < int n"
  shows "card (draws_giving (int n) r) = k"
proof -
  have "draws_giving (int n) r = {v. v < k * n \<and> v mod n = nat r}"
    unfolding draws_giving_def Intn_def using mx r
    by (auto simp: less_Suc_eq_le [symmetric] simp flip: zmod_int)
  moreover have "nat r < n" using r by linarith
  ultimately show ?thesis by (simp add: card_residue)
qed

lemma uniform_400: "0 \<le> r \<Longrightarrow> r < 400 \<Longrightarrow> card (draws_giving 400 r) = 5368709"
  using card_draws_giving [of 400 5368709 r] by (simp add: Int31n_max_def)

lemma uniform_500: "0 \<le> r \<Longrightarrow> r < 500 \<Longrightarrow> card (draws_giving 500 r) = 4294967"
  using card_draws_giving [of 500 4294967 r] by (simp add: Int31n_max_def)

lemma uniform_200: "0 \<le> r \<Longrightarrow> r < 200 \<Longrightarrow> card (draws_giving 200 r) = 10737418"
  using card_draws_giving [of 200 10737418 r] by (simp add: Int31n_max_def)

subsection \<open>What the two checkers on traces mean\<close>

text \<open>A trace that passes \<open>spans_lifo\<close> ends as many spans as it starts, counting the ones
  open at the beginning.\<close>

lemma spans_lifo_balanced:
  "spans_lifo stack tr \<Longrightarrow> length (span_starts tr) + length stack = length (span_ends tr)"
proof (induction stack tr rule: spans_lifo.induct)
  case (3 stack h es)
  then show ?case by (cases stack) auto
qed auto

text \<open>\<open>all_before P Q\<close> in terms of positions: no \<open>P\<close> at a position after a \<open>Q\<close>.\<close>

lemma all_before_iff:
  "all_before P Q tr \<longleftrightarrow> (\<forall>i j. j < i \<and> i < length tr \<and> Q (tr ! j) \<longrightarrow> \<not> P (tr ! i))"
proof (induction tr)
  case Nil
  then show ?case by simp
next
  case (Cons x xs)
  show ?case
  proof
    assume l: "all_before P Q (x # xs)"
    show "\<forall>i j. j < i \<and> i < length (x # xs) \<and> Q ((x # xs) ! j) \<longrightarrow> \<not> P ((x # xs) ! i)"
    proof (intro allI impI)
      fix i j
      assume a: "j < i \<and> i < length (x # xs) \<and> Q ((x # xs) ! j)"
      then obtain i' where i: "i = Suc i'" "i' < length xs" by (cases i) auto
      show "\<not> P ((x # xs) ! i)"
      proof (cases j)
        case 0
        with a l have "\<not> list_ex P xs" by simp
        with i show ?thesis by (auto simp: list_ex_length)
      next
        case (Suc j')
        with a i l Cons.IH show ?thesis by auto
      qed
    qed
  next
    assume r: "\<forall>i j. j < i \<and> i < length (x # xs) \<and> Q ((x # xs) ! j) \<longrightarrow> \<not> P ((x # xs) ! i)"
    have "\<not> list_ex P xs" if "Q x"
    proof -
      have "\<not> P (xs ! n)" if "n < length xs" for n
        using r [rule_format, of 0 "Suc n"] \<open>Q x\<close> that by simp
      then show ?thesis by (auto simp: list_ex_length)
    qed
    moreover have "\<not> P (xs ! i)" if "j < i" "i < length xs" "Q (xs ! j)" for i j
      using r [rule_format, of "Suc j" "Suc i"] that by simp
    then have "all_before P Q xs" using Cons.IH by blast
    ultimately show "all_before P Q (x # xs)" by simp
  qed
qed

subsection \<open>The float32 comparison against 0.2\<close>

lemma lt_0_2_nat:
  fixes m e :: nat
  assumes "m < 2 ^ 24"
  shows "(m * 2 ^ 26 < 13421773 * 2 ^ e) = (5 * m < 2 ^ e)"
proof (cases "e \<le> 26")
  case True
  define k where "k = m * 2 ^ (26 - e)"
  have p: "(2::nat) ^ 26 = 2 ^ e * 2 ^ (26 - e)"
    using True by (simp flip: power_add)
  have "(m * 2 ^ 26 < 13421773 * 2 ^ e) = (k * 2 ^ e < 13421773 * 2 ^ e)"
    unfolding k_def by (simp only: p) (simp add: mult_ac)
  also have "\<dots> = (k < 13421773)" by simp
  also have "\<dots> = (5 * k < 2 ^ 26)" by auto
  also have "\<dots> = (5 * m * 2 ^ (26 - e) < 2 ^ e * 2 ^ (26 - e))"
    unfolding k_def by (simp only: p [symmetric]) (simp add: mult_ac)
  also have "\<dots> = (5 * m < 2 ^ e)" by simp
  finally show ?thesis .
next
  case False
  then have "27 \<le> e" by simp
  then have ge: "(2::nat) ^ 27 \<le> 2 ^ e" by (rule power_increasing) simp
  have "m * 2 ^ 26 < 2 ^ 24 * 2 ^ 26" using assms by simp
  also have "\<dots> \<le> 13421773 * (2::nat) ^ 27" by simp
  also have "\<dots> \<le> 13421773 * 2 ^ e" using ge by simp
  finally have l: "m * 2 ^ 26 < 13421773 * 2 ^ e" .
  have "5 * m < 2 ^ 27" using assms by simp
  then have r: "5 * m < 2 ^ e" using ge by linarith
  from l r show ?thesis by simp
qed

lemma float32_val_lt: "(float32_val f < 1 / 5) = (5 * mant f < 2 ^ expo f)"
proof -
  have "(real (mant f) / 2 ^ expo f < 1 / 5) = (5 * real (mant f) < 2 ^ expo f)"
    by (simp add: field_simps)
  also have "\<dots> = (real (5 * mant f) < real (2 ^ expo f))" by simp
  also have "\<dots> = (5 * mant f < 2 ^ expo f)" by (rule of_nat_less_iff)
  finally show ?thesis by (simp add: float32_val_def)
qed

lemma lt_0_2_iff:
  assumes "float32_ok f"
  shows "lt_0_2 f = (float32_val f < 1 / 5)"
proof -
  from assms have "mant f < 2 ^ 24" by (simp add: float32_ok_def)
  then have "(mant f * 2 ^ 26 < 13421773 * 2 ^ expo f) = (5 * mant f < 2 ^ expo f)"
    by (rule lt_0_2_nat)
  then show ?thesis unfolding lt_0_2_def float32_val_lt .
qed

section \<open>Properties of the request pipeline\<close>

text \<open>
  C1. In \<^verbatim>\<open>src/app/main.go\<close>, when the observer supports exemplars, the trace identifier
  written into the log entries of a request is the one attached as exemplar to the histogram
  observation of that request: both are the hex string of the trace identifier of the span
  in the request context. A \<^verbatim>\<open>TraceID\<close> is an array of 16 bytes.
\<close>

theorem log_trace_id_is_exemplar_trace_id:
  assumes "exemplar_ok e" and "length (trace_id e) = 16"
  shows "let tr = events (workHandler e (fresh_request t n h));
             tid = TraceID_String (trace_id e)
         in map (\<lambda>ks. exemplar (snd ks)) (samples tr) = [Some [(''traceID'', tid)]] \<and>
            map (attr ''trace_id'') (logs tr) = [Some (S tid), Some (S tid)]"
proof -
  from assms(2) have "trace_id e \<noteq> []" by auto
  then have "TraceID_String (trace_id e) \<noteq> []"
    unfolding TraceID_String_def by (rule EncodeToString_nonempty)
  with assms(1) show ?thesis
    by (simp add: events_workHandler Let_def attr_def)
qed

theorem log_trace_id_is_exemplar_trace_id_witness:
  "exemplar_ok ok_request \<and> length (trace_id ok_request) = 16 \<and>
   map (\<lambda>ks. exemplar (snd ks)) (samples (events (workHandler ok_request start_world))) =
     [Some [(''traceID'', ''000102030405060708090a0b0c0d0e0f'')]] \<and>
   map (attr ''trace_id'') (logs (events (workHandler ok_request start_world))) =
     [Some (S ''000102030405060708090a0b0c0d0e0f''),
      Some (S ''000102030405060708090a0b0c0d0e0f'')]"
  using log_trace_id_is_exemplar_trace_id [of ok_request 0 0 "\<lambda>key. []"]
  by (simp add: ex_defs id_defs Let_def)

text \<open>
  C2. Every \<^verbatim>\<open>/work\<close> request, in both variants, sends exactly one status line, 200 or
  500; the body is \<^verbatim>\<open>"Work completed\n"\<close> on success and \<^verbatim>\<open>"Internal Server Error\n"\<close>
  on simulated failure. \<^verbatim>\<open>/healthz\<close> answers 200 with body \<^verbatim>\<open>"OK"\<close>.
\<close>

theorem one_response_fixed_body:
  "(let w = workHandler e (fresh_request t n h) in
      resp_headers (events w) = [if lt_0_2 (fdraw e) then 500 else 200] \<and>
      wrote_header w = Some (if lt_0_2 (fdraw e) then 500 else 200) \<and>
      body w = (if lt_0_2 (fdraw e) then ''Internal Server Error\<newline>''
                else ''Work completed\<newline>'')) \<and>
   (let w = workHandler_basic e (fresh_request t n h) in
      resp_headers (events w) = [if lt_0_2 (fdraw e) then 500 else 200] \<and>
      wrote_header w = Some (if lt_0_2 (fdraw e) then 500 else 200) \<and>
      body w = (if lt_0_2 (fdraw e) then ''Internal Server Error\<newline>''
                else ''Work completed\<newline>'')) \<and>
   (let w = healthzHandler (fresh_request t n h) in
      resp_headers (events w) = [200] \<and> wrote_header w = Some 200 \<and> body w = ''OK'')"
  by (simp add: events_workHandler events_workHandler_basic response_workHandler
      response_workHandler_basic response_healthzHandler Let_def)

theorem one_response_fixed_body_witness:
  "resp_headers (events (workHandler ok_request start_world)) = [200] \<and>
   body (workHandler ok_request start_world) = ''Work completed\<newline>'' \<and>
   resp_headers (events (workHandler failing_request start_world)) = [500] \<and>
   body (workHandler failing_request start_world) = ''Internal Server Error\<newline>'' \<and>
   resp_headers (events (workHandler_basic ok_request start_world)) = [200] \<and>
   body (workHandler_basic ok_request start_world) = ''Work completed\<newline>'' \<and>
   resp_headers (events (workHandler_basic failing_request start_world)) = [500] \<and>
   body (workHandler_basic failing_request start_world) = ''Internal Server Error\<newline>'' \<and>
   wrote_header (healthzHandler start_world) = Some 200 \<and>
   body (healthzHandler start_world) = ''OK''"
  using one_response_fixed_body [of ok_request 0 0 "\<lambda>key. []"]
    one_response_fixed_body [of failing_request 0 0 "\<lambda>key. []"]
  by (simp add: ex_defs lt_0_2_def Let_def)

text \<open>
  C3 (as amended). In \<^verbatim>\<open>src/app/main.go\<close> every \<^verbatim>\<open>/work\<close> request emits exactly one
  outcome entry, at level ERROR when the request failed (status 500) and at level INFO
  otherwise, with exactly the fields \<open>trace_id\<close>, \<open>span_id\<close>, \<open>latency_ms\<close>, \<open>status\<close>; the
  metric step then emits one further entry on the same logger (INFO with \<open>traceID\<close> and
  \<open>duration\<close> when an exemplar is attached, WARN with \<open>traceID\<close> and \<open>ok\<close> otherwise). The
  simpler variant emits no structured entry: it prints one text line, \<^verbatim>\<open>ERROR: ...\<close> or
  \<^verbatim>\<open>SUCCESS: ...\<close>, whose only argument is the latency.
\<close>

theorem outcome_log_entry:
  "(let tr = events (workHandler e (fresh_request t n h)) in
      length (filter is_outcome_log tr) = 1 \<and>
      map shape (logs tr) =
        [(if lt_0_2 (fdraw e) then Error else Info,
          [''trace_id'', ''span_id'', ''latency_ms'', ''status'']),
         (if exemplar_ok e \<and> TraceID_String (trace_id e) \<noteq> []
          then (Info, [''trace_id'', ''span_id'', ''traceID'', ''duration''])
          else (Warn, [''trace_id'', ''span_id'', ''traceID'', ''ok'']))] \<and>
      map (attr ''status'') (logs tr) = [Some (I (if lt_0_2 (fdraw e) then 500 else 200)), None]) \<and>
   (let tr = events (workHandler_basic e (fresh_request t n h)) in
      logs tr = [] \<and>
      printfs tr =
        [(if lt_0_2 (fdraw e) then ''ERROR: Request failed after %v\<newline>''
          else ''SUCCESS: Request completed in %v\<newline>'', Intn 500 (raw1 e) * Millisecond)])"
  by (simp add: events_workHandler events_workHandler_basic Let_def shape_def attr_def)

theorem outcome_log_entry_witness:
  "map shape (logs (events (workHandler failing_request start_world))) =
     [(Error, [''trace_id'', ''span_id'', ''latency_ms'', ''status'']),
      (Info, [''trace_id'', ''span_id'', ''traceID'', ''duration''])] \<and>
   map shape (logs (events (workHandler no_exemplar start_world))) =
     [(Info, [''trace_id'', ''span_id'', ''latency_ms'', ''status'']),
      (Warn, [''trace_id'', ''span_id'', ''traceID'', ''ok''])] \<and>
   printfs (events (workHandler_basic failing_request start_world)) =
     [(''ERROR: Request failed after %v\<newline>'', 50000000)]"
  using outcome_log_entry [of failing_request 0 0 "\<lambda>key. []"]
    outcome_log_entry [of no_exemplar 0 0 "\<lambda>key. []"]
  by (simp add: ex_defs id_defs lt_0_2_def Let_def Millisecond_def)

text \<open>The statement for every \<^verbatim>\<open>/work\<close> request fails on the simpler variant: a
  successful request there prints a line and logs no entry with the four fields. In
  \<^verbatim>\<open>src/app/main.go\<close> the same request leaves two entries in the log, not one.\<close>

theorem basic_variant_log_is_unstructured_counterexample:
  "printfs (events (workHandler_basic ok_request start_world)) =
     [(''SUCCESS: Request completed in %v\<newline>'', 50000000)] \<and>
   map shape (logs (events (workHandler_basic ok_request start_world))) \<noteq>
     [(Info, [''trace_id'', ''span_id'', ''latency_ms'', ''status''])] \<and>
   length (logs (events (workHandler ok_request start_world))) = 2"
  by (simp add: ex_defs events_workHandler events_workHandler_basic lt_0_2_def Millisecond_def
      Let_def)




text \<open>
  C5. Within one \<^verbatim>\<open>/work\<close> request the spans the handler starts and ends are balanced (as
  many ends as starts) and nested: each end closes the span started last among those still
  open, and none is left open. The simpler variant starts and ends no span.
\<close>

theorem spans_balanced_and_lifo:
  "(let tr = events (workHandler e (fresh_request t n h)) in
      length (span_ends tr) = length (span_starts tr) \<and> spans_lifo [] tr) \<and>
   (let tr = events (workHandler_basic e (fresh_request t n h)) in
      length (span_ends tr) = length (span_starts tr) \<and> spans_lifo [] tr)"
proof -
  have lifo: "spans_lifo [] (events (workHandler e (fresh_request t n h)))"
    by (simp add: events_workHandler Let_def)
  have lifo_basic: "spans_lifo [] (events (workHandler_basic e (fresh_request t n h)))"
    by (simp add: events_workHandler_basic)
  from spans_lifo_balanced [OF lifo] spans_lifo_balanced [OF lifo_basic] lifo lifo_basic
  show ?thesis by (simp add: Let_def)
qed

theorem spans_balanced_and_lifo_witness:
  "length (span_ends (events (workHandler ok_request start_world))) = 2 \<and>
   length (span_starts (events (workHandler ok_request start_world))) = 2 \<and>
   spans_lifo [] (events (workHandler ok_request start_world)) \<and>
   spans_lifo [] (events (workHandler_basic ok_request start_world))"
  using spans_balanced_and_lifo [of ok_request 0 0 "\<lambda>key. []"]
  by (simp add: ex_defs Let_def events_workHandler)

text \<open>
  C6 (as amended). The simulated latency is \<^verbatim>\<open>rand.Intn(U)\<close> milliseconds with \<open>U\<close> = 400
  in \<^verbatim>\<open>src/app/main.go\<close> and \<open>U\<close> = 500 in the simpler variant: a whole number of
  milliseconds in \<open>[0, U]\<close>, below \<open>U\<close>, drawn uniformly (each of the \<open>U\<close> values is returned
  on equally many of the draws \<^verbatim>\<open>Int31n\<close> accepts). The simpler variant blocks for exactly
  that latency and for no other simulated delay. \<^verbatim>\<open>src/app/main.go\<close> blocks for that
  latency inside the span \<open>simulate_work\<close> and then for a second simulated delay, drawn in
  the same way from the whole milliseconds below 200, inside the span \<open>db_cache_lookup\<close>.
\<close>

theorem simulated_delays:
  "(let w = workHandler_basic e (fresh_request t n h);
        latency = Intn 500 (raw1 e) * Millisecond in
      sleeps (events w) = [latency] \<and> 0 \<le> latency \<and> latency < 500 * Millisecond \<and>
      Milliseconds latency * Millisecond = latency \<and>
      clock w = t + latency + max (over1 e) 0) \<and>
   (let tr = events (workHandler e (fresh_request t n h));
        latency = Intn 400 (raw1 e) * Millisecond;
        second = Intn 200 (raw2 e) * Millisecond in
      sleeps tr = [latency, second] \<and>
      take 6 tr =
        [SpanStart n ''simulate_work'', Slept latency, SpanEnd n,
         SpanStart (Suc n) ''db_cache_lookup'', Slept second, SpanEnd (Suc n)] \<and>
      0 \<le> latency \<and> latency < 400 * Millisecond \<and>
      Milliseconds latency * Millisecond = latency \<and>
      0 \<le> second \<and> second < 200 * Millisecond \<and>
      Milliseconds second * Millisecond = second) \<and>
   (\<forall>r. 0 \<le> r \<and> r < 500 \<longrightarrow> card (draws_giving 500 r) = 4294967) \<and>
   (\<forall>r. 0 \<le> r \<and> r < 400 \<longrightarrow> card (draws_giving 400 r) = 5368709) \<and>
   (\<forall>r. 0 \<le> r \<and> r < 200 \<longrightarrow> card (draws_giving 200 r) = 10737418)"
proof -
  have range: "0 \<le> Intn 500 (raw1 e) * Millisecond"
    "Intn 500 (raw1 e) * Millisecond < 500 * Millisecond"
    "0 \<le> Intn 400 (raw1 e) * Millisecond"
    "Intn 400 (raw1 e) * Millisecond < 400 * Millisecond"
    "0 \<le> Intn 200 (raw2 e) * Millisecond"
    "Intn 200 (raw2 e) * Millisecond < 200 * Millisecond"
    using Intn_range [of 500 "raw1 e"] Intn_range [of 400 "raw1 e"]
      Intn_range [of 200 "raw2 e"]
    by (simp_all add: Millisecond_def)
  have basic: "sleeps (events (workHandler_basic e (fresh_request t n h))) =
      [Intn 500 (raw1 e) * Millisecond]"
    "clock (workHandler_basic e (fresh_request t n h)) =
      t + Intn 500 (raw1 e) * Millisecond + max (over1 e) 0"
    using range(1) by (simp_all add: events_workHandler_basic response_workHandler_basic)
  have rich: "sleeps (events (workHandler e (fresh_request t n h))) =
      [Intn 400 (raw1 e) * Millisecond, Intn 200 (raw2 e) * Millisecond]"
    "take 6 (events (workHandler e (fresh_request t n h))) =
      [SpanStart n ''simulate_work'', Slept (Intn 400 (raw1 e) * Millisecond), SpanEnd n,
       SpanStart (Suc n) ''db_cache_lookup'', Slept (Intn 200 (raw2 e) * Millisecond),
       SpanEnd (Suc n)]"
    by (simp_all add: events_workHandler Let_def)
  from range basic rich show ?thesis
    by (simp add: Let_def Milliseconds_mult uniform_500 uniform_400 uniform_200)
qed

theorem simulated_delays_witness:
  "sleeps (events (workHandler_basic ok_request start_world)) = [50000000] \<and>
   clock (workHandler_basic ok_request start_world) = 50000000 \<and>
   sleeps (events (workHandler ok_request start_world)) = [50000000, 100000000] \<and>
   sleeps (events (workHandler_basic (ok_request\<lparr>raw1 := 1250, raw2 := 900\<rparr>)
     start_world)) = [250000000] \<and>
   sleeps (events (workHandler (ok_request\<lparr>raw1 := 1250, raw2 := 900\<rparr>) start_world)) =
     [50000000, 100000000] \<and>
   (0::int) \<le> 50 \<and> (50::int) < 400 \<and> card (draws_giving 400 50) = 5368709 \<and>
   (0::int) \<le> 499 \<and> (499::int) < 500 \<and> card (draws_giving 500 499) = 4294967 \<and>
   (0::int) \<le> 100 \<and> (100::int) < 200 \<and> card (draws_giving 200 100) = 10737418"
  using simulated_delays [of ok_request 0 0 "\<lambda>key. []"]
    simulated_delays [of "ok_request\<lparr>raw1 := 1250, raw2 := 900\<rparr>" 0 0 "\<lambda>key. []"]
  by (simp add: ex_defs Let_def Millisecond_def)

text \<open>With draws 50 and 100, \<^verbatim>\<open>src/app/main.go\<close> sleeps twice, 50 ms and 100 ms, not only
  for the latency of 50 ms.\<close>

theorem second_delay_counterexample:
  "sleeps (events (workHandler ok_request start_world)) = [50 * Millisecond, 100 * Millisecond] \<and>
   sleeps (events (workHandler ok_request start_world)) \<noteq>
     [Intn 400 (raw1 ok_request) * Millisecond]"
  by (simp add: ex_defs events_workHandler Let_def)

text \<open>
  C7. A \<^verbatim>\<open>/work\<close> request fails if and only if the value drawn by \<^verbatim>\<open>rand.Float32()\<close> is
  below 0.2 (the float32 comparison against the constant agrees with the comparison of the
  drawn value against 1/5). A failure is answered with status 500 and an ERROR log (an
  entry at level ERROR in \<^verbatim>\<open>src/app/main.go\<close>, a line starting with \<^verbatim>\<open>ERROR:\<close> in the
  simpler variant), otherwise the status is 200 and no ERROR is logged. The handlers have no
  path that panics: they are total functions of the request.
\<close>

theorem failure_iff_draw_below_fifth:
  assumes "float32_ok (fdraw e)"
  shows "let failed = (float32_val (fdraw e) < 1 / 5);
             w = workHandler e (fresh_request t n h);
             b = workHandler_basic e (fresh_request t n h)
         in wrote_header w = Some (if failed then 500 else 200) \<and>
            (Error \<in> set (map fst (logs (events w)))) = failed \<and>
            wrote_header b = Some (if failed then 500 else 200) \<and>
            (map (\<lambda>p. take 6 (fst p)) (printfs (events b)) = [''ERROR:'']) = failed"
proof -
  have "lt_0_2 (fdraw e) = (float32_val (fdraw e) < 1 / 5)"
    using assms by (rule lt_0_2_iff)
  then show ?thesis
    by (simp add: events_workHandler events_workHandler_basic response_workHandler
        response_workHandler_basic Let_def)
qed

theorem failure_iff_draw_below_fifth_witness:
  "float32_ok (fdraw failing_request) \<and> float32_val (fdraw failing_request) = 1 / 8 \<and>
   wrote_header (workHandler failing_request start_world) = Some 500 \<and>
   Error \<in> set (map fst (logs (events (workHandler failing_request start_world)))) \<and>
   wrote_header (workHandler_basic failing_request start_world) = Some 500 \<and>
   map (\<lambda>p. take 6 (fst p)) (printfs (events (workHandler_basic failing_request start_world))) =
     [''ERROR:'']"
  using failure_iff_draw_below_fifth [of failing_request 0 0 "\<lambda>key. []"]
  by (simp add: ex_defs Let_def float32_ok_def float32_val_def)

text \<open>
  C8. When the observer does not support exemplars, \<^verbatim>\<open>workHandler\<close> of
  \<^verbatim>\<open>src/app/main.go\<close> records a plain observation: the histogram of the labels (method,
  status) gains exactly one sample, without exemplar, and no other histogram changes.
\<close>

theorem fallback_to_plain_observation:
  assumes "\<not> exemplar_ok e"
  shows "let w = workHandler e (fresh_request t n h);
             key = (Method e, if lt_0_2 (fdraw e) then ''500'' else ''200'');
             plain = \<lparr>observed = Seconds (elapsed e), exemplar = None\<rparr>
         in samples (events w) = [(key, plain)] \<and>
            hist w = h(key := h key @ [plain]) \<and>
            length (hist w key) = length (h key) + 1"
  using assms by (simp add: events_workHandler hist_workHandler Let_def)

theorem fallback_to_plain_observation_witness:
  "\<not> exemplar_ok no_exemplar \<and>
   samples (events (workHandler no_exemplar start_world)) =
     [((''GET'', ''200''), \<lparr>observed = 3 / 20, exemplar = None\<rparr>)] \<and>
   length (hist (workHandler no_exemplar start_world) (''GET'', ''200'')) = 1"
  using fallback_to_plain_observation [of no_exemplar 0 0 "\<lambda>key. []"]
  by (simp add: ex_defs Let_def lt_0_2_def elapsed_def Seconds_def Millisecond_def)

text \<open>
  C9 (as amended). In \<^verbatim>\<open>src/app/main.go\<close> every \<^verbatim>\<open>/work\<close> request starts, and ends,
  exactly two child spans, named \<open>simulate_work\<close> and \<open>db_cache_lookup\<close>, in this order.
  The simpler variant starts no child span.
\<close>

theorem two_named_child_spans:
  "(let tr = events (workHandler e (fresh_request t n h)) in
      span_starts tr = [(n, ''simulate_work''), (Suc n, ''db_cache_lookup'')] \<and>
      span_ends tr = [n, Suc n]) \<and>
   (let tr = events (workHandler_basic e (fresh_request t n h)) in
      span_starts tr = [] \<and> span_ends tr = [])"
  by (simp add: events_workHandler events_workHandler_basic Let_def)

theorem two_named_child_spans_witness:
  "span_starts (events (workHandler ok_request start_world)) =
     [(0, ''simulate_work''), (1, ''db_cache_lookup'')] \<and>
   span_ends (events (workHandler ok_request start_world)) = [0, 1]"
  using two_named_child_spans [of ok_request 0 0 "\<lambda>key. []"]
  by (simp add: ex_defs Let_def)

text \<open>A request to the simpler variant starts no span.\<close>

theorem basic_variant_no_spans_counterexample:
  "span_starts (events (workHandler_basic ok_request start_world)) = [] \<and>
   map snd (span_starts (events (workHandler_basic ok_request start_world))) \<noteq>
     [''simulate_work'', ''db_cache_lookup'']"
  by (simp add: ex_defs events_workHandler_basic)

text \<open>
  C10. In \<^verbatim>\<open>src/app/main.go\<close> the \<open>latency_ms\<close> field of the outcome entry is the first
  draw only (the \<open>simulate_work\<close> sleep), whereas the observed duration is the time elapsed
  since the handler started, which includes the second (\<open>db_cache_lookup\<close>) sleep as well:
  it is at least the sum of both delays, and whenever the second delay is positive the
  observed duration is strictly longer than the logged latency.
\<close>

theorem logged_latency_is_first_delay_only:
  "let tr = events (workHandler e (fresh_request t n h)) in
     map (attr ''latency_ms'') (logs tr) = [Some (I (Intn 400 (raw1 e))), None] \<and>
     map (\<lambda>ks. observed (snd ks)) (samples tr) = [Seconds (elapsed e)] \<and>
     Seconds ((Intn 400 (raw1 e) + Intn 200 (raw2 e)) * Millisecond) \<le> Seconds (elapsed e) \<and>
     (0 < Intn 200 (raw2 e) \<longrightarrow> real_of_int (Intn 400 (raw1 e)) / 1000 < Seconds (elapsed e))"
proof -
  have ge: "(Intn 400 (raw1 e) + Intn 200 (raw2 e)) * Millisecond \<le> elapsed e" by (rule elapsed_ge)
  then have "real_of_int ((Intn 400 (raw1 e) + Intn 200 (raw2 e)) * Millisecond) \<le> real_of_int (elapsed e)"
    by (simp only: of_int_le_iff)
  then have a: "Seconds ((Intn 400 (raw1 e) + Intn 200 (raw2 e)) * Millisecond) \<le> Seconds (elapsed e)"
    unfolding Seconds_def by (rule divide_right_mono) simp
  have b: "real_of_int (Intn 400 (raw1 e)) / 1000 < Seconds (elapsed e)" if "0 < Intn 200 (raw2 e)"
  proof -
    from that ge have "Intn 400 (raw1 e) * 1000000 < elapsed e" by (simp add: Millisecond_def algebra_simps)
    then have "real_of_int (Intn 400 (raw1 e) * 1000000) < real_of_int (elapsed e)" by linarith
    then show ?thesis by (simp add: Seconds_def)
  qed
  from a b show ?thesis
    by (simp add: events_workHandler Let_def attr_def)
qed

theorem logged_latency_is_first_delay_only_witness:
  "0 < Intn 200 (raw2 ok_request) \<and>
   map (attr ''latency_ms'') (logs (events (workHandler ok_request start_world))) =
     [Some (I 50), None] \<and>
   map (\<lambda>ks. observed (snd ks)) (samples (events (workHandler ok_request start_world))) =
     [150 / 1000] \<and>
   real_of_int 50 / 1000 < Seconds (elapsed ok_request)"
  using logged_latency_is_first_delay_only [of ok_request 0 0 "\<lambda>key. []"]
  by (simp add: ex_defs Let_def elapsed_def Seconds_def Millisecond_def)

end
